theory Spec2Isabelle
  imports Complex_Main "HOL-Library.Sublist"
begin

section \<open>Hybrid job recommendation engine: data model\<close>

text \<open>
  The embedding follows \<^verbatim>\<open>recommendation_engine.py\<close>, \<^verbatim>\<open>config.py\<close> and the two profile reads
  of \<^verbatim>\<open>database.py\<close>. Python floats are modelled as \<^typ>\<open>real\<close> (exact arithmetic), Python
  strings as \<^typ>\<open>string\<close> restricted to ASCII text, and a leading underscore of a Python
  name is dropped. Fields of \<^verbatim>\<open>RecommendationScore\<close> whose names coincide with fields of
  \<^verbatim>\<open>JobProfile\<close> carry the prefix \<^verbatim>\<open>rs_\<close>.
\<close>

record Config =
  CONTENT_WEIGHT :: real
  KNOWLEDGE_WEIGHT :: real
  MIN_RECOMMENDATION_SCORE :: real
  MAX_RECOMMENDATIONS :: int
  SKILLS_WEIGHT :: real
  EDUCATION_WEIGHT :: real
  EXPERIENCE_WEIGHT :: real
  COURSE_WEIGHT :: real
  LOCATION_WEIGHT :: real
  NLP_CACHE_SIZE :: int
  ENABLE_POPULARITY_BOOST :: bool
  ENABLE_DIVERSITY_BOOST :: bool

text \<open>The defaults of \<^verbatim>\<open>config.py\<close> (no environment variable set).\<close>

definition default_config :: Config where
  "default_config =
     \<lparr> CONTENT_WEIGHT = 4 / 10, KNOWLEDGE_WEIGHT = 6 / 10,
       MIN_RECOMMENDATION_SCORE = 3 / 10, MAX_RECOMMENDATIONS = 50,
       SKILLS_WEIGHT = 30 / 100, EDUCATION_WEIGHT = 25 / 100,
       EXPERIENCE_WEIGHT = 20 / 100, COURSE_WEIGHT = 15 / 100,
       LOCATION_WEIGHT = 10 / 100, NLP_CACHE_SIZE = 1000,
       ENABLE_POPULARITY_BOOST = True, ENABLE_DIVERSITY_BOOST = True \<rparr>"

text \<open>
  An entry of \<^verbatim>\<open>work_experience\<close> or \<^verbatim>\<open>education\<close>: a dictionary with string values,
  or anything else (which \<^verbatim>\<open>isinstance(exp, dict)\<close> rejects).
\<close>

datatype resume_entry = DictEntry "(string \<times> string) list" | NonDict

record UserProfile =
  user_id :: int
  first_name :: string
  last_name :: string
  student_type :: string
  courses :: "(string \<times> string) list"
  age :: "int option"
  profile_completed :: bool
  has_completed_resume :: bool
  skills :: "string list option"
  work_experience :: "resume_entry list option"
  education :: "resume_entry list option"
  professional_summary :: "string option"
  languages :: "string list option"
  hobbies :: "string option"

record JobProfile =
  job_id :: int
  title :: string
  category :: string
  description :: string
  summary :: "string option"
  location :: string
  work_type :: string
  work_arrangement :: string
  experience_level :: string
  min_salary :: "real option"
  max_salary :: "real option"
  company_name :: string
  application_count :: int

record RecommendationScore =
  rs_job_id :: int
  content_score :: real
  knowledge_score :: real
  hybrid_score :: real
  confidence :: real
  reasons :: "string list"
  job_title :: string
  job_category :: string
  rs_company_name :: string

text \<open>
  The engine object. \<^verbatim>\<open>sentence_model\<close> is the loaded embedding model (its \<^verbatim>\<open>encode\<close>;
  \<^const>\<open>None\<close> as a result is an exception while encoding), \<^verbatim>\<open>tfidf_vectorizer\<close> is the
  lexical vectoriser together with the cosine of the two vectors it fits (\<^const>\<open>None\<close> as a
  result is an exception). Both belong to external libraries and are parameters here.
  \<^verbatim>\<open>embeddings_cache\<close> is the dictionary in insertion order; the MD5 digest that keys it is
  represented by the string it digests.
\<close>

record Engine =
  is_initialized :: bool
  sentence_model :: "(string \<Rightarrow> real list option) option"
  tfidf_vectorizer :: "(string \<Rightarrow> string \<Rightarrow> real option) option"
  SKLEARN_AVAILABLE :: bool
  embeddings_cache :: "(string \<times> real) list"
  job_categories_mapping :: "string \<rightharpoonup> string list"
  popular_jobs :: "int list"

section \<open>Strings\<close>

definition lower_char :: "char \<Rightarrow> char" where
  "lower_char c =
     (let n = (of_char c :: nat) in if 65 \<le> n \<and> n \<le> 90 then char_of (n + 32) else c)"

definition lower :: "string \<Rightarrow> string" where
  "lower s = map lower_char s"

text \<open>Python's \<^verbatim>\<open>needle in hay\<close> on strings.\<close>

fun str_contains :: "string \<Rightarrow> string \<Rightarrow> bool" where
  "str_contains needle [] = (needle = [])"
| "str_contains needle (c # cs) = (prefix needle (c # cs) \<or> str_contains needle cs)"

text \<open>Python's \<^verbatim>\<open>sep.join(parts)\<close>.\<close>

fun join :: "string \<Rightarrow> string list \<Rightarrow> string" where
  "join sep [] = []"
| "join sep [p] = p"
| "join sep (p # q # ps) = p @ sep @ join sep (q # ps)"

text \<open>Python's \<^verbatim>\<open>d.get(k, '')\<close> on a dictionary with string values.\<close>

definition dict_get :: "(string \<times> string) list \<Rightarrow> string \<Rightarrow> string" where
  "dict_get d k = (case map_of d k of Some v \<Rightarrow> v | None \<Rightarrow> [])"

text \<open>Truthiness of an optional list or string: neither \<^verbatim>\<open>None\<close> nor empty.\<close>

definition truthy :: "'a list option \<Rightarrow> bool" where
  "truthy x = (case x of None \<Rightarrow> False | Some v \<Rightarrow> v \<noteq> [])"

section \<open>Knowledge scorer\<close>

definition entry_text :: "string \<Rightarrow> string \<Rightarrow> string \<Rightarrow> resume_entry list \<Rightarrow> string list" where
  "entry_text k1 k2 k3 es =
     concat (map (\<lambda>e. case e of
         DictEntry d \<Rightarrow> [dict_get d k1 @ '' '' @ dict_get d k2 @ '' '' @ dict_get d k3]
       | NonDict \<Rightarrow> []) es)"

definition create_user_text :: "UserProfile \<Rightarrow> string" where
  "create_user_text user_profile =
     (let text_parts =
            (if truthy (professional_summary user_profile)
             then [the (professional_summary user_profile)] else [])
          @ (if truthy (skills user_profile)
             then [join '' '' (the (skills user_profile))] else [])
          @ (if truthy (work_experience user_profile)
             then entry_text ''jobTitle'' ''company'' ''description''
                    (the (work_experience user_profile)) else [])
          @ (if truthy (education user_profile)
             then entry_text ''degree'' ''fieldOfStudy'' ''school''
                    (the (education user_profile)) else [])
          @ map (\<lambda>(course, status). course @ '' '' @ status) (courses user_profile)
      in lower (join '' '' text_parts))"

definition create_job_text :: "JobProfile \<Rightarrow> string" where
  "create_job_text job_profile =
     lower (join '' ''
       [title job_profile, category job_profile, description job_profile,
        (case summary job_profile of None \<Rightarrow> [] | Some s \<Rightarrow> s),
        work_type job_profile, experience_level job_profile])"

section \<open>Text similarity backends\<close>

text \<open>\<^verbatim>\<open>\w\<close> on ASCII text: a letter, a digit or the underscore.\<close>

definition is_word_char :: "char \<Rightarrow> bool" where
  "is_word_char c =
     (let n = (of_char c :: nat) in
        (48 \<le> n \<and> n \<le> 57) \<or> (65 \<le> n \<and> n \<le> 90) \<or> n = 95 \<or> (97 \<le> n \<and> n \<le> 122))"

text \<open>\<^verbatim>\<open>re.findall(r'\w+', s)\<close>: the maximal runs of word characters, left to right.\<close>

fun words_acc :: "string \<Rightarrow> string \<Rightarrow> string list" where
  "words_acc cur [] = (if cur = [] then [] else [cur])"
| "words_acc cur (c # cs) =
     (if is_word_char c then words_acc (cur @ [c]) cs
      else (if cur = [] then [] else [cur]) @ words_acc [] cs)"

definition findall_w :: "string \<Rightarrow> string list" where
  "findall_w s = words_acc [] s"

definition calculate_simple_text_similarity :: "string \<Rightarrow> string \<Rightarrow> real" where
  "calculate_simple_text_similarity user_text job_text =
     (let user_words = set (findall_w (lower user_text));
          job_words = set (findall_w (lower job_text))
      in if user_words = {} \<or> job_words = {} then 0
         else let intersection = user_words \<inter> job_words;
                  union = user_words \<union> job_words
              in if union \<noteq> {} then real (card intersection) / real (card union) else 0)"

text \<open>
  \<^verbatim>\<open>sklearn.metrics.pairwise.cosine_similarity\<close> on two single rows: each row is divided
  by its Euclidean norm (a zero norm is replaced by 1) and the dot product is taken.
\<close>

definition l2_normalize :: "real list \<Rightarrow> real list" where
  "l2_normalize x =
     (let n = sqrt (sum_list (map (\<lambda>v. v * v) x));
          n' = (if n = 0 then 1 else n)
      in map (\<lambda>v. v / n') x)"

definition cosine_similarity :: "real list \<Rightarrow> real list \<Rightarrow> real" where
  "cosine_similarity x y = sum_list (map2 (*) (l2_normalize x) (l2_normalize y))"

text \<open>
  The embedding path. Every exception (no model, a failing \<^verbatim>\<open>encode\<close>, no scikit-learn
  and hence no \<^verbatim>\<open>cosine_similarity\<close>, rows of different or zero width) is caught and
  gives 0.0 without touching the cache.
\<close>

definition calculate_semantic_similarity_bert ::
    "Config \<Rightarrow> Engine \<Rightarrow> string \<Rightarrow> string \<Rightarrow> real \<times> Engine" where
  "calculate_semantic_similarity_bert cfg eng user_text job_text =
     (let cache_key = user_text @ ''||'' @ job_text in
      case map_of (embeddings_cache eng) cache_key of
        Some v \<Rightarrow> (v, eng)
      | None \<Rightarrow>
          (case sentence_model eng of
             None \<Rightarrow> (0, eng)
           | Some encode \<Rightarrow>
               (case (encode user_text, encode job_text) of
                  (Some e0, Some e1) \<Rightarrow>
                    if \<not> SKLEARN_AVAILABLE eng \<or> e0 = [] \<or> length e0 \<noteq> length e1
                    then (0, eng)
                    else
                      let similarity = cosine_similarity e0 e1;
                          eng' = (if int (length (embeddings_cache eng)) < NLP_CACHE_SIZE cfg
                                  then eng \<lparr> embeddings_cache :=
                                         embeddings_cache eng @ [(cache_key, similarity)] \<rparr>
                                  else eng)
                      in (similarity, eng')
                | _ \<Rightarrow> (0, eng))))"

definition calculate_tfidf_similarity :: "Engine \<Rightarrow> string \<Rightarrow> string \<Rightarrow> real" where
  "calculate_tfidf_similarity eng user_text job_text =
     (case tfidf_vectorizer eng of
        None \<Rightarrow> 0
      | Some fit_cos \<Rightarrow> (case fit_cos user_text job_text of None \<Rightarrow> 0 | Some s \<Rightarrow> s))"

definition similarity_reasons :: "real \<Rightarrow> string list" where
  "similarity_reasons similarity =
     (if similarity > 7 / 10
      then [''Strong semantic match between your profile and job requirements'']
      else if similarity > 5 / 10 then [''Good compatibility with job description'']
      else if similarity > 3 / 10 then [''Some relevant experience matches job needs'']
      else [])"

definition calculate_knowledge_score ::
    "Config \<Rightarrow> Engine \<Rightarrow> UserProfile \<Rightarrow> JobProfile \<Rightarrow> (real \<times> string list) \<times> Engine" where
  "calculate_knowledge_score cfg eng user_profile job_profile =
     (if \<not> has_completed_resume user_profile
      then ((0, [''Complete your resume for better job matching'']), eng)
      else
        let user_text = create_user_text user_profile;
            job_text = create_job_text job_profile
        in if user_text = [] \<or> job_text = [] then ((0, []), eng)
           else
             let (similarity, eng') =
                   (if sentence_model eng \<noteq> None
                    then calculate_semantic_similarity_bert cfg eng user_text job_text
                    else if tfidf_vectorizer eng \<noteq> None \<and> SKLEARN_AVAILABLE eng
                    then (calculate_tfidf_similarity eng user_text job_text, eng)
                    else (calculate_simple_text_similarity user_text job_text, eng))
             in ((min 1 similarity, similarity_reasons similarity), eng'))"

section \<open>Content scorer\<close>

definition calculate_skills_match :: "string list \<Rightarrow> JobProfile \<Rightarrow> real" where
  "calculate_skills_match user_skills job_profile =
     (if user_skills = [] then 0
      else
        let job_text = lower (title job_profile @ '' '' @ description job_profile);
            matching_skills =
              fold (\<lambda>skill n. if str_contains (lower skill) job_text then n + 1 else n)
                user_skills (0 :: nat)
        in if user_skills \<noteq> [] then real matching_skills / real (length user_skills) else 0)"

definition get_matching_skills :: "string list \<Rightarrow> JobProfile \<Rightarrow> string list" where
  "get_matching_skills user_skills job_profile =
     (let job_text = lower (title job_profile @ '' '' @ description job_profile)
      in filter (\<lambda>skill. str_contains (lower skill) job_text) user_skills)"

definition experience_education_map :: "(string \<times> real) list" where
  "experience_education_map =
     [(''entry-level'', 8 / 10), (''mid-level'', 6 / 10),
      (''senior-level'', 4 / 10), (''executive'', 2 / 10)]"

definition calculate_education_match :: "UserProfile \<Rightarrow> JobProfile \<Rightarrow> real" where
  "calculate_education_match user_profile job_profile =
     (let base_score = (if student_type user_profile = ''alumni'' then 8 / 10 else 6 / 10);
          experience_modifier =
            (case map_of experience_education_map (experience_level job_profile) of
               Some m \<Rightarrow> m | None \<Rightarrow> 5 / 10)
      in base_score * experience_modifier)"

definition calculate_experience_match :: "UserProfile \<Rightarrow> JobProfile \<Rightarrow> real" where
  "calculate_experience_match user_profile job_profile =
     (if \<not> has_completed_resume user_profile then 3 / 10
      else
        let experience_count =
              (if truthy (work_experience user_profile)
               then int (length (the (work_experience user_profile))) else 0)
        in if experience_level job_profile = ''entry-level''
           then (if experience_count \<ge> 0 then 9 / 10 else 6 / 10)
           else if experience_level job_profile = ''mid-level''
           then (if experience_count \<ge> 1 then 8 / 10 else 4 / 10)
           else if experience_level job_profile = ''senior-level''
           then (if experience_count \<ge> 2 then 7 / 10 else 3 / 10)
           else (if experience_count \<ge> 3 then 6 / 10 else 2 / 10))"

definition calculate_course_match :: "Engine \<Rightarrow> (string \<times> string) list \<Rightarrow> string \<Rightarrow> real" where
  "calculate_course_match eng user_courses job_category' =
     (if user_courses = [] then 0
      else
        fold (\<lambda>(course_name, graduation_status) max_score.
                case job_categories_mapping eng course_name of
                  None \<Rightarrow> max_score
                | Some categories \<Rightarrow>
                    if job_category' \<in> set categories
                    then max max_score (if graduation_status = ''graduated'' then 1 else 8 / 10)
                    else max_score)
          user_courses 0)"

text \<open>
  The body of \<^verbatim>\<open>_calculate_content_score\<close>. With the typed profiles above none of its
  statements raises, so the \<^verbatim>\<open>except\<close> branch (which keeps the partial sum) has no
  counterpart.
\<close>

definition calculate_content_score ::
    "Config \<Rightarrow> Engine \<Rightarrow> UserProfile \<Rightarrow> JobProfile \<Rightarrow> real \<times> string list" where
  "calculate_content_score cfg eng user_profile job_profile =
     (let (score1, reasons1) =
            (if truthy (skills user_profile)
             then
               let skills_score = calculate_skills_match (the (skills user_profile)) job_profile;
                   matching_skills = get_matching_skills (the (skills user_profile)) job_profile
               in (0 + SKILLS_WEIGHT cfg * skills_score,
                   if skills_score > 5 / 10 \<and> matching_skills \<noteq> []
                   then [''Skills match: '' @ join '', '' (take 3 matching_skills)] else [])
             else (0, []));
          education_score = calculate_education_match user_profile job_profile;
          score2 = score1 + EDUCATION_WEIGHT cfg * education_score;
          reasons2 = reasons1 @
            (if education_score > 5 / 10
             then [''Education level matches '' @ experience_level job_profile @ '' requirements'']
             else []);
          experience_score = calculate_experience_match user_profile job_profile;
          score3 = score2 + EXPERIENCE_WEIGHT cfg * experience_score;
          reasons3 = reasons2 @
            (if experience_score > 5 / 10
             then [''Experience level aligns with '' @ experience_level job_profile @ '' role'']
             else []);
          course_score = calculate_course_match eng (courses user_profile) (category job_profile);
          score4 = score3 + COURSE_WEIGHT cfg * course_score;
          reasons4 = reasons3 @
            (if course_score > 7 / 10
             then [''Your course background fits '' @ category job_profile @ '' field'']
             else []);
          location_score = 5 / 10;
          score5 = score4 + LOCATION_WEIGHT cfg * location_score
      in (min 1 score5, reasons4))"

section \<open>Hybrid composer\<close>

definition calculate_confidence :: "UserProfile \<Rightarrow> real \<Rightarrow> real \<Rightarrow> real" where
  "calculate_confidence user_profile content_score' knowledge_score' =
     (let c0 = 5 / 10;
          c1 = (if profile_completed user_profile then c0 + 2 / 10 else c0);
          c2 = (if has_completed_resume user_profile then c1 + 3 / 10 else c1);
          score_diff = \<bar>content_score' - knowledge_score'\<bar>;
          c3 = (if score_diff < 2 / 10 then c2 + 1 / 10 else c2)
      in min 1 c3)"

text \<open>
  The loop of \<^verbatim>\<open>_calculate_hybrid_recommendations\<close>, one job per step, threading the engine
  (the similarity cache) from job to job. The result of a step is \<^const>\<open>None\<close> when the job
  falls below the minimum score.
\<close>

definition score_job ::
    "Config \<Rightarrow> Engine \<Rightarrow> UserProfile \<Rightarrow> JobProfile \<Rightarrow> bool \<Rightarrow> RecommendationScore option \<times> Engine" where
  "score_job cfg eng user_profile job_profile include_reasons =
     (let (content_score', content_reasons) =
            calculate_content_score cfg eng user_profile job_profile;
          ((knowledge_score', knowledge_reasons), eng') =
            calculate_knowledge_score cfg eng user_profile job_profile;
          hybrid_score' =
            CONTENT_WEIGHT cfg * content_score' + KNOWLEDGE_WEIGHT cfg * knowledge_score';
          confidence' = calculate_confidence user_profile content_score' knowledge_score';
          all_reasons = (if include_reasons then content_reasons @ knowledge_reasons else [])
      in (if hybrid_score' \<ge> MIN_RECOMMENDATION_SCORE cfg
          then Some \<lparr> rs_job_id = job_id job_profile, content_score = content_score',
                      knowledge_score = knowledge_score', hybrid_score = hybrid_score',
                      confidence = confidence', reasons = all_reasons,
                      job_title = title job_profile, job_category = category job_profile,
                      rs_company_name = company_name job_profile \<rparr>
          else None, eng'))"

fun calculate_hybrid_recommendations ::
    "Config \<Rightarrow> Engine \<Rightarrow> UserProfile \<Rightarrow> JobProfile list \<Rightarrow> bool
       \<Rightarrow> RecommendationScore list \<times> Engine" where
  "calculate_hybrid_recommendations cfg eng user_profile [] include_reasons = ([], eng)"
| "calculate_hybrid_recommendations cfg eng user_profile (job_profile # rest) include_reasons =
     (let (r, eng') = score_job cfg eng user_profile job_profile include_reasons;
          (rs, eng'') = calculate_hybrid_recommendations cfg eng' user_profile rest include_reasons
      in ((case r of None \<Rightarrow> rs | Some recommendation \<Rightarrow> recommendation # rs), eng''))"

section \<open>Post-processor\<close>

text \<open>\<^verbatim>\<open>list.index\<close>: the position of the first occurrence (called only on members).\<close>

fun index_of :: "'a \<Rightarrow> 'a list \<Rightarrow> nat" where
  "index_of x [] = 0"
| "index_of x (y # ys) = (if x = y then 0 else Suc (index_of x ys))"

definition popularity_boost :: "int list \<Rightarrow> int \<Rightarrow> real" where
  "popularity_boost popular jid =
     1 / 10 * (1 - real (index_of jid popular) / real (length popular))"

definition apply_popularity :: "int list \<Rightarrow> RecommendationScore \<Rightarrow> RecommendationScore" where
  "apply_popularity popular rec =
     (if rs_job_id rec \<in> set popular
      then
        let boost = popularity_boost popular (rs_job_id rec)
        in rec \<lparr> hybrid_score := min 1 (hybrid_score rec + boost),
                 reasons := (if boost > 5 / 100
                             then reasons rec @ [''Popular job opportunity'']
                             else reasons rec) \<rparr>
      else rec)"

definition apply_diversity_boost :: "RecommendationScore list \<Rightarrow> RecommendationScore list" where
  "apply_diversity_boost recommendations =
     (let category_counts =
            (\<lambda>c. length (filter (\<lambda>rec. job_category rec = c) recommendations))
      in map (\<lambda>rec. if category_counts (job_category rec) = 1
                     then rec \<lparr> hybrid_score := min 1 (hybrid_score rec + 5 / 100) \<rparr>
                     else rec)
           recommendations)"

definition apply_post_processing ::
    "Config \<Rightarrow> Engine \<Rightarrow> RecommendationScore list \<Rightarrow> UserProfile \<Rightarrow> RecommendationScore list" where
  "apply_post_processing cfg eng recommendations user_profile =
     (let boosted =
            (if ENABLE_POPULARITY_BOOST cfg \<and> popular_jobs eng \<noteq> []
             then map (apply_popularity (popular_jobs eng)) recommendations
             else recommendations)
      in if ENABLE_DIVERSITY_BOOST cfg then apply_diversity_boost boosted else boosted)"

section \<open>Data access and feature builders\<close>

text \<open>
  The outcome of one SQL read: the statement fails (connection or query error), it finds
  no row, or it finds a row.
\<close>

datatype 'a query = QueryFails | NoRow | Row 'a

record profile_row =
  pr_first_name :: string
  pr_last_name :: string
  pr_student_type :: string
  pr_age :: "int option"
  pr_profile_completed :: bool
  pr_courses :: "string option"
  pr_graduation_statuses :: "string option"

record profile_data =
  pd_first_name :: string
  pd_last_name :: string
  pd_student_type :: string
  pd_age :: "int option"
  pd_profile_completed :: bool
  courses_list :: "(string \<times> string) list"

text \<open>A member of the \<^verbatim>\<open>skills\<close> or \<^verbatim>\<open>languages\<close> list of a resume.\<close>

datatype json_item = ItemStr string | ItemDict "(string \<times> string) list" | ItemOther

text \<open>
  The resume row after its JSON columns were parsed; \<^const>\<open>None\<close> is a null column, a
  column that failed to parse, or a value that is not a list.
\<close>

record resume_data =
  rd_skills :: "json_item list option"
  rd_work_experience :: "resume_entry list option"
  rd_education :: "resume_entry list option"
  rd_professional_summary :: "string option"
  rd_languages :: "json_item list option"
  rd_hobbies :: "string option"

record job_data =
  jd_id :: int
  jd_title :: string
  jd_category :: string
  jd_description :: "string option"
  jd_summary :: "string option"
  jd_location :: string
  jd_work_type :: string
  jd_work_arrangement :: string
  jd_experience_level :: string
  jd_min_salary :: "real option"
  jd_max_salary :: "real option"
  jd_company_name :: "string option"
  jd_application_count :: "int option"

text \<open>
  The database as the engine sees it: what the profile and the resume statement give for a
  user id (the resume statement with \<^verbatim>\<open>status = 'completed'\<close>), and the active jobs that
  \<^verbatim>\<open>get_active_jobs\<close> returns for a limit (the empty list when that read fails).
\<close>

record Database =
  profile_query :: "int \<Rightarrow> profile_row query"
  resume_query :: "int \<Rightarrow> resume_data query"
  get_active_jobs :: "int \<Rightarrow> job_data list"

text \<open>Python's \<^verbatim>\<open>s.split(',')\<close>.\<close>

fun split_acc :: "string \<Rightarrow> string \<Rightarrow> string list" where
  "split_acc cur [] = [cur]"
| "split_acc cur (c # cs) =
     (if c = CHR '','' then cur # split_acc [] cs else split_acc (cur @ [c]) cs)"

definition split_comma :: "string \<Rightarrow> string list" where
  "split_comma s = split_acc [] s"

text \<open>
  \<^verbatim>\<open>DatabaseManager.get_user_profile\<close> and \<^verbatim>\<open>get_user_resume\<close>: both catch every
  exception of the read and return \<^verbatim>\<open>None\<close>.
\<close>

definition get_user_profile :: "Database \<Rightarrow> int \<Rightarrow> profile_data option" where
  "get_user_profile db uid =
     (case profile_query db uid of
        QueryFails \<Rightarrow> None
      | NoRow \<Rightarrow> None
      | Row profile \<Rightarrow>
          Some \<lparr> pd_first_name = pr_first_name profile, pd_last_name = pr_last_name profile,
                 pd_student_type = pr_student_type profile, pd_age = pr_age profile,
                 pd_profile_completed = pr_profile_completed profile,
                 courses_list =
                   (if truthy (pr_courses profile)
                    then zip (split_comma (the (pr_courses profile)))
                           (if truthy (pr_graduation_statuses profile)
                            then split_comma (the (pr_graduation_statuses profile)) else [])
                    else []) \<rparr>)"

definition get_user_resume :: "Database \<Rightarrow> int \<Rightarrow> resume_data option" where
  "get_user_resume db uid =
     (case resume_query db uid of QueryFails \<Rightarrow> None | NoRow \<Rightarrow> None | Row resume \<Rightarrow> Some resume)"

definition extract_skills_from_resume :: "resume_data \<Rightarrow> string list" where
  "extract_skills_from_resume resume =
     (case rd_skills resume of
        None \<Rightarrow> []
      | Some skills' \<Rightarrow>
          concat (map (\<lambda>skill. case skill of
              ItemDict d \<Rightarrow>
                (case map_of d ''name'' of
                   Some v \<Rightarrow> [v]
                 | None \<Rightarrow> (case map_of d ''skill'' of Some v \<Rightarrow> [v] | None \<Rightarrow> []))
            | ItemStr v \<Rightarrow> [v]
            | ItemOther \<Rightarrow> []) skills'))"

definition extract_languages_from_resume :: "resume_data \<Rightarrow> string list" where
  "extract_languages_from_resume resume =
     (case rd_languages resume of
        None \<Rightarrow> []
      | Some languages' \<Rightarrow>
          concat (map (\<lambda>lang. case lang of
              ItemDict d \<Rightarrow> (case map_of d ''language'' of Some v \<Rightarrow> [v] | None \<Rightarrow> [])
            | ItemStr v \<Rightarrow> [v]
            | ItemOther \<Rightarrow> []) languages'))"

text \<open>
  \<^verbatim>\<open>_build_user_profile\<close>. Its own \<^verbatim>\<open>except\<close> branch also returns \<^verbatim>\<open>None\<close>; the two reads
  it guards have already turned their failures into \<^verbatim>\<open>None\<close>.
\<close>

definition build_user_profile :: "Database \<Rightarrow> int \<Rightarrow> UserProfile option" where
  "build_user_profile db uid =
     (case get_user_profile db uid of
        None \<Rightarrow> None
      | Some pd \<Rightarrow>
          let user_profile =
                \<lparr> user_id = uid, first_name = pd_first_name pd, last_name = pd_last_name pd,
                  student_type = pd_student_type pd, courses = courses_list pd,
                  age = pd_age pd, profile_completed = pd_profile_completed pd,
                  has_completed_resume = False, skills = None, work_experience = None,
                  education = None, professional_summary = None, languages = None,
                  hobbies = None \<rparr>
          in (case get_user_resume db uid of
                None \<Rightarrow> Some user_profile
              | Some resume \<Rightarrow>
                  Some (user_profile
                    \<lparr> has_completed_resume := True,
                      skills := Some (extract_skills_from_resume resume),
                      work_experience := rd_work_experience resume,
                      education := rd_education resume,
                      professional_summary := rd_professional_summary resume,
                      languages := Some (extract_languages_from_resume resume),
                      hobbies := rd_hobbies resume \<rparr>)))"

definition build_job_profile :: "job_data \<Rightarrow> JobProfile" where
  "build_job_profile jd =
     \<lparr> job_id = jd_id jd, title = jd_title jd, category = jd_category jd,
       description = (case jd_description jd of None \<Rightarrow> [] | Some d \<Rightarrow> d),
       summary = jd_summary jd, location = jd_location jd, work_type = jd_work_type jd,
       work_arrangement = jd_work_arrangement jd,
       experience_level = jd_experience_level jd,
       min_salary = jd_min_salary jd, max_salary = jd_max_salary jd,
       company_name = (case jd_company_name jd of None \<Rightarrow> ''Unknown'' | Some c \<Rightarrow> c),
       application_count = (case jd_application_count jd of None \<Rightarrow> 0 | Some n \<Rightarrow> n) \<rparr>"

section \<open>Orchestrator\<close>

text \<open>
  The two \<^verbatim>\<open>ValueError\<close>s that \<^verbatim>\<open>get_recommendations\<close> raises:
  "Recommendation engine not initialized" and "No profile found for user \<open>n\<close>".
\<close>

datatype error = EngineNotInitialized | NoProfileFound int

text \<open>Python's \<^verbatim>\<open>xs[:limit]\<close>; a negative limit counts from the end.\<close>

definition slice_to :: "int \<Rightarrow> 'a list \<Rightarrow> 'a list" where
  "slice_to limit xs =
     (if limit \<ge> 0 then take (nat limit) xs else take (nat (int (length xs) + limit)) xs)"

text \<open>
  \<^verbatim>\<open>recommendations.sort(key=lambda x: x.hybrid_score, reverse=True)\<close>: a stable sort,
  descending in the hybrid score.
\<close>

definition sort_by_hybrid_desc :: "RecommendationScore list \<Rightarrow> RecommendationScore list" where
  "sort_by_hybrid_desc recommendations = sort_key (\<lambda>x. - hybrid_score x) recommendations"

text \<open>
  \<^verbatim>\<open>get_recommendations\<close>. The analytics write at its end is swallowed on failure and does
  not change what is returned; it is left out. The engine is returned with its cache.
\<close>

definition get_recommendations ::
    "Config \<Rightarrow> Database \<Rightarrow> Engine \<Rightarrow> int \<Rightarrow> int \<Rightarrow> bool
       \<Rightarrow> (error + RecommendationScore list) \<times> Engine" where
  "get_recommendations cfg db eng uid limit include_reasons =
     (if \<not> is_initialized eng then (Inl EngineNotInitialized, eng)
      else case build_user_profile db uid of
        None \<Rightarrow> (Inl (NoProfileFound uid), eng)
      | Some user_profile \<Rightarrow>
          let jobs = get_active_jobs db (MAX_RECOMMENDATIONS cfg)
          in if jobs = [] then (Inr [], eng)
             else
               let job_profiles = map build_job_profile jobs;
                   (recommendations, eng') =
                     calculate_hybrid_recommendations cfg eng user_profile job_profiles
                       include_reasons;
                   recommendations' =
                     apply_post_processing cfg eng' recommendations user_profile
               in (Inr (slice_to limit (sort_by_hybrid_desc recommendations')), eng'))"

section \<open>Sample data\<close>

definition sample_engine :: Engine where
  "sample_engine =
     \<lparr> is_initialized = True, sentence_model = None, tfidf_vectorizer = None,
       SKLEARN_AVAILABLE = False, embeddings_cache = [],
       job_categories_mapping = Map.empty, popular_jobs = [] \<rparr>"

definition sample_user :: UserProfile where
  "sample_user =
     \<lparr> user_id = 7, first_name = ''Ana'', last_name = ''Cruz'', student_type = ''alumni'',
       courses = [], age = None, profile_completed = True,
       has_completed_resume = False, skills = None, work_experience = None,
       education = None, professional_summary = None, languages = None, hobbies = None \<rparr>"

definition sample_job :: JobProfile where
  "sample_job =
     \<lparr> job_id = 1, title = ''Python Developer'', category = ''IT'',
       description = ''Build SQL reports'', summary = None, location = ''Manila'',
       work_type = ''full-time'', work_arrangement = ''onsite'',
       experience_level = ''entry-level'', min_salary = None, max_salary = None,
       company_name = ''Acme'', application_count = 0 \<rparr>"

definition sample_job_data :: job_data where
  "sample_job_data =
     \<lparr> jd_id = 1, jd_title = ''Python Developer'', jd_category = ''IT'',
       jd_description = Some ''Build SQL reports'', jd_summary = None,
       jd_location = ''Manila'', jd_work_type = ''full-time'',
       jd_work_arrangement = ''onsite'', jd_experience_level = ''entry-level'',
       jd_min_salary = None, jd_max_salary = None, jd_company_name = Some ''Acme'',
       jd_application_count = Some 0 \<rparr>"

definition sample_profile_row :: profile_row where
  "sample_profile_row =
     \<lparr> pr_first_name = ''Ben'', pr_last_name = ''Reyes'', pr_student_type = ''alumni'',
       pr_age = None, pr_profile_completed = True, pr_courses = None,
       pr_graduation_statuses = None \<rparr>"

definition sample_resume :: resume_data where
  "sample_resume =
     \<lparr> rd_skills = Some [ItemStr ''Python'', ItemDict [(''name'', ''SQL'')]],
       rd_work_experience = Some [], rd_education = Some [],
       rd_professional_summary = None, rd_languages = Some [], rd_hobbies = None \<rparr>"

definition sample_db :: Database where
  "sample_db =
     \<lparr> profile_query = (\<lambda>uid. if uid = 8 then Row sample_profile_row
                              else if uid = 9 then QueryFails else NoRow),
       resume_query = (\<lambda>uid. if uid = 8 then Row sample_resume else NoRow),
       get_active_jobs = (\<lambda>limit. take (nat limit) [sample_job_data]) \<rparr>"

definition resume_user :: UserProfile where
  "resume_user =
     \<lparr> user_id = 8, first_name = ''Ben'', last_name = ''Reyes'', student_type = ''alumni'',
       courses = [], age = None, profile_completed = True,
       has_completed_resume = True, skills = Some [''Python'', ''SQL''],
       work_experience = Some [], education = Some [], professional_summary = None,
       languages = Some [], hobbies = None \<rparr>"

definition sample_recommendation :: RecommendationScore where
  "sample_recommendation =
     \<lparr> rs_job_id = 1, content_score = 69 / 100, knowledge_score = 1 / 5,
       hybrid_score = 99 / 250, confidence = 1,
       reasons = [''Skills match: Python, SQL'',
                  ''Education level matches entry-level requirements'',
                  ''Experience level aligns with entry-level role''],
       job_title = ''Python Developer'', job_category = ''IT'', rs_company_name = ''Acme'' \<rparr>"

section \<open>Properties\<close>

text \<open>
  C3. Resume hard gate: for a user without a completed resume the knowledge scorer returns
  the score 0.0 and exactly the one reason "Complete your resume for better job matching",
  whatever the job, the configuration and the engine state are (and it leaves the engine
  state as it was).
\<close>

theorem resume_hard_gate:
  "\<not> has_completed_resume user_profile \<Longrightarrow>
     calculate_knowledge_score cfg eng user_profile job_profile =
       ((0, [''Complete your resume for better job matching'']), eng)"
  by (simp add: calculate_knowledge_score_def)

theorem resume_hard_gate_witness:
  "\<not> has_completed_resume sample_user \<and>
   calculate_knowledge_score default_config sample_engine sample_user sample_job =
     ((0, [''Complete your resume for better job matching'']), sample_engine)"
  using resume_hard_gate [of sample_user default_config sample_engine sample_job]
  by (simp add: sample_user_def)

subsection \<open>Shared lemmas about the composer\<close>

lemma score_job_Some:
  assumes "score_job cfg e u j incl = (Some r, e')"
  shows "rs_job_id r = job_id j"
    and "content_score r = fst (calculate_content_score cfg e u j)"
    and "knowledge_score r = fst (fst (calculate_knowledge_score cfg e u j))"
    and "hybrid_score r = CONTENT_WEIGHT cfg * content_score r + KNOWLEDGE_WEIGHT cfg * knowledge_score r"
    and "MIN_RECOMMENDATION_SCORE cfg \<le> hybrid_score r"
    and "reasons r = (if incl then snd (calculate_content_score cfg e u j) @ snd (fst (calculate_knowledge_score cfg e u j)) else [])"
    and "job_category r = category j"
proof -
  obtain cs cr where c: "calculate_content_score cfg e u j = (cs, cr)"
    by (cases "calculate_content_score cfg e u j")
  obtain ks kr e2 where k: "calculate_knowledge_score cfg e u j = ((ks, kr), e2)"
    by (cases "calculate_knowledge_score cfg e u j") auto
  from assms have r: "r = \<lparr> rs_job_id = job_id j, content_score = cs,
                      knowledge_score = ks, hybrid_score = CONTENT_WEIGHT cfg * cs + KNOWLEDGE_WEIGHT cfg * ks,
                      confidence = calculate_confidence u cs ks, reasons = (if incl then cr @ kr else []),
                      job_title = title j, job_category = category j,
                      rs_company_name = company_name j \<rparr>"
    and m: "MIN_RECOMMENDATION_SCORE cfg \<le> CONTENT_WEIGHT cfg * cs + KNOWLEDGE_WEIGHT cfg * ks"
    unfolding score_job_def c k by (simp_all add: Let_def split: if_splits)
  show "rs_job_id r = job_id j" by (simp add: r)
  show "content_score r = fst (calculate_content_score cfg e u j)" by (simp add: r c)
  show "knowledge_score r = fst (fst (calculate_knowledge_score cfg e u j))" by (simp add: r k)
  show "hybrid_score r = CONTENT_WEIGHT cfg * content_score r + KNOWLEDGE_WEIGHT cfg * knowledge_score r"
    by (simp add: r)
  show "MIN_RECOMMENDATION_SCORE cfg \<le> hybrid_score r" using m by (simp add: r)
  show "reasons r = (if incl then snd (calculate_content_score cfg e u j) @ snd (fst (calculate_knowledge_score cfg e u j)) else [])"
    by (simp add: r c k)
  show "job_category r = category j" by (simp add: r)
qed

lemma hybrid_recommendations_member:
  "r \<in> set (fst (calculate_hybrid_recommendations cfg eng u jobs incl)) \<Longrightarrow>
     \<exists>j \<in> set jobs. \<exists>e e'. score_job cfg e u j incl = (Some r, e')"
proof (induction jobs arbitrary: eng)
  case Nil
  then show ?case by simp
next
  case (Cons j js)
  obtain r1 e1 where s: "score_job cfg eng u j incl = (r1, e1)" by (cases "score_job cfg eng u j incl")
  obtain rs e2 where t: "calculate_hybrid_recommendations cfg e1 u js incl = (rs, e2)"
    by (cases "calculate_hybrid_recommendations cfg e1 u js incl")
  from Cons.prems s t have "r \<in> set (case r1 of None \<Rightarrow> rs | Some x \<Rightarrow> x # rs)" by simp
  then consider "r1 = Some r" | "r \<in> set rs" by (cases r1) auto
  then show ?case
  proof cases
    case 1
    with s show ?thesis by auto
  next
    case 2
    then have "r \<in> set (fst (calculate_hybrid_recommendations cfg e1 u js incl))" by (simp add: t)
    from Cons.IH [OF this] show ?thesis by auto
  qed
qed

lemma index_of_less: "x \<in> set xs \<Longrightarrow> index_of x xs < length xs"
  by (induction xs) auto

lemma popularity_boost_nonneg: "jid \<in> set popular \<Longrightarrow> 0 \<le> popularity_boost popular jid"
proof -
  assume m: "jid \<in> set popular"
  then have "real (index_of jid popular) \<le> real (length popular)"
    using index_of_less [OF m] by simp
  moreover have "0 < real (length popular)" using m by (cases popular) auto
  ultimately have "real (index_of jid popular) / real (length popular) \<le> 1"
    by (simp add: divide_le_eq)
  then show ?thesis by (simp add: popularity_boost_def)
qed

lemma apply_popularity_fields:
  "rs_job_id (apply_popularity p r) = rs_job_id r"
  "content_score (apply_popularity p r) = content_score r"
  "knowledge_score (apply_popularity p r) = knowledge_score r"
  "job_category (apply_popularity p r) = job_category r"
  by (simp_all add: apply_popularity_def Let_def)

lemma apply_popularity_hybrid:
  "min 1 (hybrid_score r) \<le> hybrid_score (apply_popularity p r)"
proof (cases "rs_job_id r \<in> set p")
  case True
  from popularity_boost_nonneg [OF True] True show ?thesis
    by (simp add: apply_popularity_def Let_def min_def)
next
  case False
  then show ?thesis by (simp add: apply_popularity_def)
qed

lemma apply_diversity_boost_member:
  assumes "r \<in> set (apply_diversity_boost rs)"
  shows "\<exists>r0 \<in> set rs. rs_job_id r = rs_job_id r0 \<and> content_score r = content_score r0 \<and>
        knowledge_score r = knowledge_score r0 \<and> reasons r = reasons r0 \<and>
        min 1 (hybrid_score r0) \<le> hybrid_score r"
proof -
  from assms obtain r0 where r0: "r0 \<in> set rs"
    and r: "r = r0 \<or> r = r0 \<lparr> hybrid_score := min 1 (hybrid_score r0 + 5 / 100) \<rparr>"
    unfolding apply_diversity_boost_def Let_def by (auto split: if_splits)
  from r show ?thesis
  proof
    assume "r = r0" with r0 show ?thesis by (intro bexI [of _ r0]) simp_all
  next
    assume "r = r0 \<lparr> hybrid_score := min 1 (hybrid_score r0 + 5 / 100) \<rparr>"
    with r0 show ?thesis by (intro bexI [of _ r0]) (simp_all add: min_def)
  qed
qed

lemma popularity_stage_member:
  assumes "r \<in> set (map (apply_popularity p) rs)"
  shows "\<exists>r0 \<in> set rs. rs_job_id r = rs_job_id r0 \<and> content_score r = content_score r0 \<and>
        knowledge_score r = knowledge_score r0 \<and> min 1 (hybrid_score r0) \<le> hybrid_score r"
proof -
  from assms obtain r0 where "r0 \<in> set rs" "r = apply_popularity p r0" by auto
  then show ?thesis
    using apply_popularity_fields(1-3) [of p r0] apply_popularity_hybrid [of r0 p]
    by (intro bexI [of _ r0]) simp_all
qed

lemma post_processing_member:
  assumes "r \<in> set (apply_post_processing cfg e rs u)"
  shows "\<exists>r0 \<in> set rs. rs_job_id r = rs_job_id r0 \<and> content_score r = content_score r0 \<and>
        knowledge_score r = knowledge_score r0 \<and> min 1 (hybrid_score r0) \<le> hybrid_score r"
proof -
  define b where "b = (if ENABLE_POPULARITY_BOOST cfg \<and> popular_jobs e \<noteq> []
             then map (apply_popularity (popular_jobs e)) rs else rs)"
  have b: "\<exists>r0 \<in> set rs. rs_job_id x = rs_job_id r0 \<and> content_score x = content_score r0 \<and>
        knowledge_score x = knowledge_score r0 \<and> min 1 (hybrid_score r0) \<le> hybrid_score x"
    if "x \<in> set b" for x
  proof (cases "ENABLE_POPULARITY_BOOST cfg \<and> popular_jobs e \<noteq> []")
    case True
    with that have "x \<in> set (map (apply_popularity (popular_jobs e)) rs)" by (simp add: b_def)
    then show ?thesis by (rule popularity_stage_member)
  next
    case False
    with that have "x \<in> set rs" by (simp add: b_def)
    then show ?thesis by (intro bexI [of _ x]) simp_all
  qed
  have pp: "apply_post_processing cfg e rs u =
      (if ENABLE_DIVERSITY_BOOST cfg then apply_diversity_boost b else b)"
    by (simp add: apply_post_processing_def Let_def b_def)
  show ?thesis
  proof (cases "ENABLE_DIVERSITY_BOOST cfg")
    case False
    with assms pp have "r \<in> set b" by simp
    then show ?thesis by (rule b)
  next
    case True
    with assms pp have "r \<in> set (apply_diversity_boost b)" by simp
    from apply_diversity_boost_member [OF this]
    obtain x where x: "x \<in> set b" "rs_job_id r = rs_job_id x" "content_score r = content_score x"
       "knowledge_score r = knowledge_score x" "min 1 (hybrid_score x) \<le> hybrid_score r"
      by blast
    from b [OF x(1)] obtain r0 where r0: "r0 \<in> set rs" "rs_job_id x = rs_job_id r0"
       "content_score x = content_score r0" "knowledge_score x = knowledge_score r0"
       "min 1 (hybrid_score r0) \<le> hybrid_score x" by blast
    from x(5) r0(5) have "min 1 (hybrid_score r0) \<le> hybrid_score r" by (simp add: min_def split: if_splits)
    with r0 x show ?thesis by (intro bexI [of _ r0]) simp_all
  qed
qed

lemma slice_to_subset: "set (slice_to limit xs) \<subseteq> set xs"
  by (auto simp: slice_to_def dest: in_set_takeD)

lemma sort_by_hybrid_desc_set: "set (sort_by_hybrid_desc xs) = set xs"
  by (simp add: sort_by_hybrid_desc_def)

subsection \<open>The sample run\<close>

lemma build_sample_user: "build_user_profile sample_db 8 = Some resume_user"
  by (simp add: build_user_profile_def get_user_profile_def get_user_resume_def sample_db_def
      sample_profile_row_def sample_resume_def resume_user_def truthy_def
      extract_skills_from_resume_def extract_languages_from_resume_def)

lemma build_sample_job: "build_job_profile sample_job_data = sample_job"
  by (simp add: build_job_profile_def sample_job_data_def sample_job_def)

lemma sample_content: "calculate_content_score default_config sample_engine resume_user sample_job =
  (69/100, [''Skills match: Python, SQL'', ''Education level matches entry-level requirements'',
            ''Experience level aligns with entry-level role''])"
  by code_simp

lemma sample_texts:
  "calculate_simple_text_similarity (create_user_text resume_user) (create_job_text sample_job) = 1/5"
  "create_user_text resume_user \<noteq> []" "create_job_text sample_job \<noteq> []"
  by code_simp+

lemma sample_knowledge:
  "calculate_knowledge_score default_config sample_engine resume_user sample_job =
     ((1/5, []), sample_engine)"
  using sample_texts
  by (simp add: calculate_knowledge_score_def Let_def similarity_reasons_def)
     (simp add: sample_engine_def resume_user_def)

lemma sample_confidence: "calculate_confidence resume_user (69/100) (1/5) = 1"
  by code_simp

lemma sample_score_job:
  "score_job default_config sample_engine resume_user sample_job True =
     (Some sample_recommendation, sample_engine)"
  unfolding score_job_def sample_content sample_knowledge
  by (simp add: Let_def sample_confidence sample_recommendation_def)
     (simp add: default_config_def sample_job_def)

lemma get_recommendations_not_ready:
  "\<not> is_initialized eng \<Longrightarrow>
     get_recommendations cfg db eng uid limit incl = (Inl EngineNotInitialized, eng)"
  by (simp add: get_recommendations_def)

lemma get_recommendations_no_profile:
  "is_initialized eng \<Longrightarrow> build_user_profile db uid = None \<Longrightarrow>
     get_recommendations cfg db eng uid limit incl = (Inl (NoProfileFound uid), eng)"
  by (simp add: get_recommendations_def)

lemma get_recommendations_scored:
  assumes "is_initialized eng" and "build_user_profile db uid = Some u"
    and "calculate_hybrid_recommendations cfg eng u
           (map build_job_profile (get_active_jobs db (MAX_RECOMMENDATIONS cfg))) incl = (rs, e)"
  shows "get_recommendations cfg db eng uid limit incl =
     (if get_active_jobs db (MAX_RECOMMENDATIONS cfg) = [] then (Inr [], eng)
      else (Inr (slice_to limit (sort_by_hybrid_desc (apply_post_processing cfg e rs u))), e))"
  unfolding get_recommendations_def Let_def using assms by simp

lemma sample_hybrid:
  "calculate_hybrid_recommendations default_config sample_engine resume_user [sample_job] True =
     ([sample_recommendation], sample_engine)"
  by (simp add: sample_score_job)

lemma sample_post:
  "apply_post_processing default_config sample_engine [sample_recommendation] resume_user =
     [sample_recommendation \<lparr> hybrid_score := 223 / 500 \<rparr>]"
proof -
  have "popular_jobs sample_engine = []" by (simp add: sample_engine_def)
  moreover have "ENABLE_DIVERSITY_BOOST default_config" by (simp add: default_config_def)
  moreover have "apply_diversity_boost [sample_recommendation] =
      [sample_recommendation \<lparr> hybrid_score := 223 / 500 \<rparr>]"
    by (simp add: apply_diversity_boost_def sample_recommendation_def)
  ultimately show ?thesis by (simp add: apply_post_processing_def)
qed

lemma sample_run:
  "fst (get_recommendations default_config sample_db sample_engine 8 10 True) =
     Inr [sample_recommendation \<lparr> hybrid_score := 223 / 500 \<rparr>]"
proof -
  have j: "get_active_jobs sample_db (MAX_RECOMMENDATIONS default_config) = [sample_job_data]"
    by (simp add: sample_db_def default_config_def)
  have i: "is_initialized sample_engine" by (simp add: sample_engine_def)
  have h: "calculate_hybrid_recommendations default_config sample_engine resume_user
           (map build_job_profile (get_active_jobs sample_db (MAX_RECOMMENDATIONS default_config))) True
           = ([sample_recommendation], sample_engine)"
    by (simp add: j build_sample_job sample_score_job)
  show ?thesis
    unfolding get_recommendations_scored [OF i build_sample_user h]
    by (simp add: j sample_post sort_by_hybrid_desc_def slice_to_def)
qed

end
